theory Spec2Isabelle
  imports Main
begin

section \<open>The explore command of the Timesketch command-line client\<close>

text \<open>
  A shallow embedding of \<^verbatim>\<open>timesketch_cli_client/commands/explore.py\<close>. Python's
  dictionaries with a fixed set of keys are records, exceptions are the left summand of a
  sum type, and the calls to the outside world (the sketch object of the API client,
  \<^verbatim>\<open>click.echo\<close>) are recorded, in order, in a list of events.
\<close>

subsection \<open>Values and errors\<close>

text \<open>
  The elements of the \<^verbatim>\<open>values\<close> argument of \<^verbatim>\<open>get_filter_chips\<close>: click delivers
  a string for each \<^verbatim>\<open>--label\<close> and \<^verbatim>\<open>--time\<close>, and a tuple of strings for each
  \<^verbatim>\<open>--time-range\<close>.
\<close>

datatype pyval = Str string | Tup "string list"

text \<open>
  The exceptions of the module: the two Python raises itself, and whatever the remote
  service raises through the API client.
\<close>

datatype error = IndexError | KeyError | ServiceError string

subsection \<open>Filter chips\<close>

text \<open>
  A chip is a dictionary with the keys \<^verbatim>\<open>field\<close>, \<^verbatim>\<open>value\<close>, \<^verbatim>\<open>type\<close> and
  \<^verbatim>\<open>operator\<close>. The type is \<^verbatim>\<open>None\<close> in the empty chip.
\<close>

record chip =
  field_key :: string
  value_key :: pyval
  type_key :: "string option"
  operator_key :: string

definition create_empty_chip :: chip where
  "create_empty_chip =
     \<lparr>field_key = '''', value_key = Str '''', type_key = None, operator_key = ''must''\<rparr>"

text \<open>
  \<^verbatim>\<open>time_range[i]\<close> on a tuple: an index beyond the end raises IndexError.
\<close>

definition tuple_get :: "string list \<Rightarrow> nat \<Rightarrow> error + string" where
  "tuple_get xs i = (if i < length xs then Inr (xs ! i) else Inl IndexError)"

text \<open>
  The body of the loop over labels (lines 48 to 53): \<^verbatim>\<open>label in ['star', 'comment']\<close>
  compares with \<^verbatim>\<open>==\<close>, which no tuple satisfies.
\<close>

definition label_chip :: "pyval \<Rightarrow> chip" where
  "label_chip label =
     (let label' = (if label \<in> set [Str ''star'', Str ''comment'']
                    then (case label of Str s \<Rightarrow> Str (''__ts_'' @ s) | Tup t \<Rightarrow> Tup t)
                    else label)
      in create_empty_chip\<lparr>value_key := label', type_key := Some ''label''\<rparr>)"

text \<open>
  The body of the loop over time ranges (lines 56 to 61): a string becomes the pair of
  itself twice; of anything else the first two components are read.
\<close>

definition datetime_range_chip :: "pyval \<Rightarrow> error + chip" where
  "datetime_range_chip time_range =
     (let time_range' = (case time_range of Str s \<Rightarrow> [s, s] | Tup t \<Rightarrow> t)
      in case tuple_get time_range' 0 of
           Inl e \<Rightarrow> Inl e
         | Inr a \<Rightarrow>
             (case tuple_get time_range' 1 of
                Inl e \<Rightarrow> Inl e
              | Inr b \<Rightarrow>
                  Inr (create_empty_chip
                         \<lparr>value_key := Str (a @ '','' @ b),
                          type_key := Some ''datetime_range''\<rparr>)))"

text \<open>The two for statements, each appending to \<^verbatim>\<open>chips\<close>.\<close>

fun label_loop :: "pyval list \<Rightarrow> chip list \<Rightarrow> chip list" where
  "label_loop [] chips = chips"
| "label_loop (label # rest) chips = label_loop rest (chips @ [label_chip label])"

fun datetime_range_loop :: "pyval list \<Rightarrow> chip list \<Rightarrow> error + chip list" where
  "datetime_range_loop [] chips = Inr chips"
| "datetime_range_loop (time_range # rest) chips =
     (case datetime_range_chip time_range of
        Inl e \<Rightarrow> Inl e
      | Inr chip \<Rightarrow> datetime_range_loop rest (chips @ [chip]))"

definition get_filter_chips :: "pyval list \<Rightarrow> string \<Rightarrow> error + chip list" where
  "get_filter_chips values chip_type =
     (if chip_type = ''label'' then Inr (label_loop values [])
      else if chip_type = ''datetime_range'' then datetime_range_loop values []
      else Inr [])"

subsection \<open>The query filter and the saved view\<close>

text \<open>
  The query filter is the dictionary of lines 171 to 178; \<^verbatim>\<open>--limit\<close> is a Python
  integer. A saved view carries a query string and a query filter.
\<close>

record query_filter =
  from_key :: int
  terminate_after_key :: int
  size_key :: int
  indices_key :: "string list"
  order_key :: string
  chips_key :: "chip list"

record view =
  view_query_string :: string
  view_query_filter :: query_filter

subsection \<open>The table of search results\<close>

text \<open>
  A dataframe is a list of named columns. \<^verbatim>\<open>drop(columns=...)\<close> of pandas removes
  every column with one of the names, and raises KeyError when a name is no column.
\<close>

type_synonym dataframe = "(string \<times> string list) list"

definition columns :: "dataframe \<Rightarrow> string list" where
  "columns dataframe = map fst dataframe"

definition drop_columns :: "string list \<Rightarrow> dataframe \<Rightarrow> error + dataframe" where
  "drop_columns names dataframe =
     (if list_all (\<lambda>n. n \<in> set (columns dataframe)) names
      then Inr (filter (\<lambda>col. fst col \<notin> set names) dataframe)
      else Inl KeyError)"

subsection \<open>The fields to return\<close>

text \<open>
  \<^verbatim>\<open>return_fields\<close> is a list of field names in the docstring of \<^verbatim>\<open>search\<close>, and
  the string of the option \<^verbatim>\<open>--return-fields\<close> where \<^verbatim>\<open>explore_group\<close> calls it.
  Python's \<^verbatim>\<open>in\<close> is membership on a list and the substring test on a string.
\<close>

datatype fields = FieldStr string | FieldList "string list"

fun startswith :: "string \<Rightarrow> string \<Rightarrow> bool" where
  "startswith s [] = True"
| "startswith [] (p # ps) = False"
| "startswith (c # cs) (p # ps) = (c = p \<and> startswith cs ps)"

fun str_contains :: "string \<Rightarrow> string \<Rightarrow> bool" where
  "str_contains [] sub = (sub = [])"
| "str_contains (c # cs) sub = (startswith (c # cs) sub \<or> str_contains cs sub)"

fun py_in :: "string \<Rightarrow> fields \<Rightarrow> bool" where
  "py_in x (FieldStr s) = str_contains s x"
| "py_in x (FieldList l) = (x \<in> set l)"

text \<open>
  Modelled from the spec: the API client that reads \<^verbatim>\<open>return_fields\<close> is not part of
  the module. The specification calls the option a comma-separated field list, so the
  fields a string requests are its pieces between commas (\<^verbatim>\<open>str.split(',')\<close>).
\<close>

fun split_on :: "char \<Rightarrow> string \<Rightarrow> string list" where
  "split_on sep [] = [[]]"
| "split_on sep (c # cs) =
     (if c = sep then [] # split_on sep cs
      else (case split_on sep cs of
              [] \<Rightarrow> [[c]]
            | w # ws \<Rightarrow> (c # w) # ws))"

fun requested_fields :: "fields \<Rightarrow> string list" where
  "requested_fields (FieldStr s) = split_on (CHR '','') s"
| "requested_fields (FieldList l) = l"

subsection \<open>The outside world\<close>

text \<open>
  The sketch object of the API client is a parameter: its two methods answer with a
  value or raise. The renderers of pandas and tabulate and \<^verbatim>\<open>json.dumps\<close> are
  parameters as well. \<^verbatim>\<open>tabulate\<close> takes the \<^verbatim>\<open>headers\<close> argument, absent or
  \<^verbatim>\<open>'keys'\<close>; \<^verbatim>\<open>json_dumps\<close> takes the \<^verbatim>\<open>indent\<close> argument.
\<close>

record sketch =
  get_view :: "string \<Rightarrow> error + view"
  explore :: "string \<Rightarrow> query_filter \<Rightarrow> fields \<Rightarrow> error + dataframe"

record libs =
  to_string :: "dataframe \<Rightarrow> bool \<Rightarrow> string"
  to_csv :: "dataframe \<Rightarrow> bool \<Rightarrow> string"
  tabulate :: "dataframe \<Rightarrow> string option \<Rightarrow> string"
  json_dumps :: "query_filter \<Rightarrow> nat \<Rightarrow> string"

text \<open>
  What the command does to the outside world, in order: the two calls to the sketch
  with their arguments, and \<^verbatim>\<open>click.echo\<close> with its message (possibly \<^verbatim>\<open>None\<close>) and
  its \<^verbatim>\<open>nl\<close> argument.
\<close>

datatype event =
    GetView string
  | Explore string query_filter fields
  | Echo "string option" bool

subsection \<open>search, format\_output, describe\_query\<close>

definition search ::
  "sketch \<Rightarrow> string \<Rightarrow> query_filter \<Rightarrow> fields \<Rightarrow> event list \<times> (error + dataframe)" where
  "search sk query_string query_filter return_fields =
     ([Explore query_string query_filter return_fields],
      (case explore sk query_string query_filter return_fields of
         Inl e \<Rightarrow> Inl e
       | Inr dataframe \<Rightarrow>
           if \<not> py_in ''label'' return_fields
           then drop_columns [''label''] dataframe
           else Inr dataframe))"

definition format_output :: "libs \<Rightarrow> dataframe \<Rightarrow> string \<Rightarrow> bool \<Rightarrow> string option" where
  "format_output L dataframe output_format show_headers =
     (if output_format = ''text'' then Some (to_string L dataframe show_headers)
      else if output_format = ''csv'' then Some (to_csv L dataframe show_headers)
      else if output_format = ''tabular'' then
        (if show_headers then Some (tabulate L dataframe (Some ''keys''))
         else Some (tabulate L dataframe None))
      else None)"

definition describe_query :: "libs \<Rightarrow> string \<Rightarrow> query_filter \<Rightarrow> event list" where
  "describe_query L query_string query_filter =
     [Echo (Some (''Query string: '' @ query_string)) True,
      Echo (Some (''Filter: '' @ json_dumps L query_filter 2)) True]"

subsection \<open>The command\<close>

text \<open>
  The parameters click passes to \<^verbatim>\<open>explore_group\<close>: \<^verbatim>\<open>multiple=True\<close> gives a
  tuple of the values in the order of the command line, \<^verbatim>\<open>nargs=2\<close> makes each value
  a pair, and an option without a default is \<^verbatim>\<open>None\<close> when it is not given.
\<close>

record args =
  arg_query :: string
  arg_times :: "string list"
  arg_time_ranges :: "(string \<times> string) list"
  arg_labels :: "string list"
  arg_header :: bool
  arg_output :: "string option"
  arg_return_fields :: string
  arg_order :: string
  arg_limit :: int
  arg_view :: "string option"
  arg_describe :: bool

text \<open>The defaults of the option declarations (lines 127 to 157).\<close>

definition default_args :: args where
  "default_args =
     \<lparr>arg_query = ''*'', arg_times = [], arg_time_ranges = [], arg_labels = [],
      arg_header = True, arg_output = None, arg_return_fields = '''',
      arg_order = ''asc'', arg_limit = 40, arg_view = None, arg_describe = False\<rparr>"

text \<open>\<^verbatim>\<open>ctx.obj\<close>: the active sketch and the ambient output format.\<close>

record ctx_obj =
  obj_sketch :: sketch
  obj_output_format :: string

text \<open>Python's truth value of an optional string: \<^verbatim>\<open>None\<close> and \<^verbatim>\<open>''\<close> are false.\<close>

fun truthy :: "string option \<Rightarrow> bool" where
  "truthy None = False"
| "truthy (Some s) = (s \<noteq> [])"

text \<open>The dictionary of lines 171 to 178.\<close>

definition new_query_filter :: "int \<Rightarrow> string \<Rightarrow> query_filter" where
  "new_query_filter limit order =
     \<lparr>from_key = 0, terminate_after_key = limit, size_key = limit,
      indices_key = [''_all''], order_key = order, chips_key = []\<rparr>"

text \<open>
  One of the three blocks of lines 191 to 201: when the option was given at all, its
  chips are built and appended to the chips of the filter.
\<close>

definition extend_chips :: "pyval list \<Rightarrow> string \<Rightarrow> query_filter \<Rightarrow> error + query_filter" where
  "extend_chips values chip_type query_filter =
     (if values \<noteq> [] then
        (case get_filter_chips values chip_type of
           Inl e \<Rightarrow> Inl e
         | Inr chips \<Rightarrow> Inr (query_filter\<lparr>chips_key := chips_key query_filter @ chips\<rparr>))
      else Inr query_filter)"

text \<open>Lines 191 to 201: time ranges, then times, then labels.\<close>

definition apply_filter_flags :: "args \<Rightarrow> query_filter \<Rightarrow> error + query_filter" where
  "apply_filter_flags a query_filter =
     (case extend_chips (map (\<lambda>(s, e). Tup [s, e]) (arg_time_ranges a))
             ''datetime_range'' query_filter of
        Inl e \<Rightarrow> Inl e
      | Inr qf1 \<Rightarrow>
          (case extend_chips (map Str (arg_times a)) ''datetime_range'' qf1 of
             Inl e \<Rightarrow> Inl e
           | Inr qf2 \<Rightarrow> extend_chips (map Str (arg_labels a)) ''label'' qf2))"

text \<open>
  The two lines that end both paths (187 and 188, 207 and 208): search, then echo the
  formatted result. An exception of the search leaves the command before the echo.
\<close>

definition search_then_echo ::
  "libs \<Rightarrow> sketch \<Rightarrow> string \<Rightarrow> query_filter \<Rightarrow> string \<Rightarrow> string \<Rightarrow> bool \<Rightarrow> bool
     \<Rightarrow> event list \<times> (error + unit)" where
  "search_then_echo L sk query query_filter return_fields output_format header new_line =
     (case search sk query query_filter (FieldStr return_fields) of
        (evs, Inl e) \<Rightarrow> (evs, Inl e)
      | (evs, Inr result) \<Rightarrow>
          (evs @ [Echo (format_output L result output_format header) new_line], Inr ()))"

definition explore_group :: "libs \<Rightarrow> ctx_obj \<Rightarrow> args \<Rightarrow> event list \<times> (error + unit)" where
  "explore_group L obj a =
     (let sk = obj_sketch obj;
          output_format =
            (if truthy (arg_output a) then the (arg_output a) else obj_output_format obj);
          new_line = (output_format \<noteq> ''csv'');
          query_filter = new_query_filter (arg_limit a) (arg_order a)
      in if truthy (arg_view a) then
           (case get_view sk (the (arg_view a)) of
              Inl e \<Rightarrow> ([GetView (the (arg_view a))], Inl e)
            | Inr v \<Rightarrow>
                if arg_describe a then
                  (GetView (the (arg_view a))
                     # describe_query L (view_query_string v) (view_query_filter v),
                   Inr ())
                else
                  (case search_then_echo L sk (view_query_string v) (view_query_filter v)
                          (arg_return_fields a) output_format (arg_header a) new_line of
                     (evs, r) \<Rightarrow> (GetView (the (arg_view a)) # evs, r)))
         else
           (case apply_filter_flags a query_filter of
              Inl e \<Rightarrow> ([], Inl e)
            | Inr query_filter' \<Rightarrow>
                if arg_describe a then
                  (describe_query L (arg_query a) query_filter', Inr ())
                else
                  search_then_echo L sk (arg_query a) query_filter'
                    (arg_return_fields a) output_format (arg_header a) new_line))"

text \<open>The searches of a run: the arguments of its calls to \<^verbatim>\<open>sketch.explore\<close>.\<close>

fun searches :: "event list \<Rightarrow> (string \<times> query_filter \<times> fields) list" where
  "searches [] = []"
| "searches (Explore q f r # evs) = (q, f, r) # searches evs"
| "searches (GetView n # evs) = searches evs"
| "searches (Echo m nl # evs) = searches evs"

subsection \<open>Concrete inputs\<close>

text \<open>
  A saved view, a raw result table with the \<^verbatim>\<open>label\<close> column the service always
  sends, a sketch that knows the view \<^verbatim>\<open>my_view\<close> and answers every search with that
  table, and renderers that only name themselves. The theorems below hold for every
  sketch and every renderer; these are the inputs at which they are evaluated.
\<close>

definition example_view :: view where
  "example_view =
     \<lparr>view_query_string = ''tag:login'',
      view_query_filter =
        \<lparr>from_key = 0, terminate_after_key = 10, size_key = 10,
         indices_key = [''_all''], order_key = ''desc'', chips_key = []\<rparr>\<rparr>"

definition example_table :: dataframe where
  "example_table =
     [(''message'', [''login'', ''logout'']), (''label'', [''[]'', ''[]''])]"

definition example_sketch :: sketch where
  "example_sketch =
     \<lparr>get_view = (\<lambda>view_name. if view_name = ''my_view'' then Inr example_view
                                else Inl (ServiceError ''no such view'')),
      explore = (\<lambda>query_string query_filter return_fields. Inr example_table)\<rparr>"

definition example_libs :: libs where
  "example_libs =
     \<lparr>to_string = (\<lambda>dataframe header. ''to_string''),
      to_csv = (\<lambda>dataframe header. ''to_csv''),
      tabulate = (\<lambda>dataframe headers. ''tabulate''),
      json_dumps = (\<lambda>query_filter indent. ''json'')\<rparr>"

definition example_obj :: ctx_obj where
  "example_obj = \<lparr>obj_sketch = example_sketch, obj_output_format = ''tabular''\<rparr>"

section \<open>Properties\<close>

subsection \<open>The filter-chip builder\<close>

lemma label_loop_append: "label_loop vals chips = chips @ map label_chip vals"
  by (induction vals arbitrary: chips) simp_all

lemma label_chip_Str:
  "label_chip (Str l) =
     \<lparr>field_key = '''',
      value_key = Str (if l = ''star'' then ''__ts_star''
                       else if l = ''comment'' then ''__ts_comment'' else l),
      type_key = Some ''label'', operator_key = ''must''\<rparr>"
  by (simp add: label_chip_def create_empty_chip_def)

lemma label_chips_map:
  "get_filter_chips (map Str labels) ''label'' = Inr (map (label_chip \<circ> Str) labels)"
  by (simp add: get_filter_chips_def label_loop_append)

text \<open>
  C2. For every list of label values, the builder called with chip type \<^verbatim>\<open>label\<close>
  returns exactly one chip per value, in order, each with field \<^verbatim>\<open>''\<close>, operator
  \<^verbatim>\<open>must\<close> and type \<^verbatim>\<open>label\<close>; the value is the input, except that \<^verbatim>\<open>star\<close>
  becomes \<^verbatim>\<open>__ts_star\<close> and \<^verbatim>\<open>comment\<close> becomes \<^verbatim>\<open>__ts_comment\<close>.
\<close>

theorem label_chips:
  "get_filter_chips (map Str labels) ''label'' =
     Inr (map (\<lambda>l. \<lparr>field_key = '''',
                      value_key = Str (if l = ''star'' then ''__ts_star''
                                       else if l = ''comment'' then ''__ts_comment'' else l),
                      type_key = Some ''label'', operator_key = ''must''\<rparr>) labels)"
  by (simp add: label_chips_map label_chip_Str comp_def)

lemma datetime_range_loop_append:
  "\<forall>v \<in> set vals. datetime_range_chip v = Inr (f v) \<Longrightarrow>
   datetime_range_loop vals chips = Inr (chips @ map f vals)"
  by (induction vals arbitrary: chips) simp_all

lemma datetime_range_chip_Str:
  "datetime_range_chip (Str t) =
     Inr \<lparr>field_key = '''', value_key = Str (t @ '','' @ t),
          type_key = Some ''datetime_range'', operator_key = ''must''\<rparr>"
  by (simp add: datetime_range_chip_def tuple_get_def create_empty_chip_def)

lemma datetime_range_chip_pair:
  "datetime_range_chip (Tup [s, e]) =
     Inr \<lparr>field_key = '''', value_key = Str (s @ '','' @ e),
          type_key = Some ''datetime_range'', operator_key = ''must''\<rparr>"
  by (simp add: datetime_range_chip_def tuple_get_def create_empty_chip_def)

text \<open>
  On well-formed time inputs (a string, or a tuple of exactly two strings) no index is
  out of range and the loop is a map.
\<close>

lemma datetime_range_chips_map:
  assumes "\<forall>v \<in> set vals. (\<exists>t. v = Str t) \<or> (\<exists>s e. v = Tup [s, e])"
  shows "get_filter_chips vals ''datetime_range'' =
           Inr (map (\<lambda>v. \<lparr>field_key = '''',
                            value_key = (case v of Str t \<Rightarrow> Str (t @ '','' @ t)
                                         | Tup xs \<Rightarrow> Str (hd xs @ '','' @ hd (tl xs))),
                            type_key = Some ''datetime_range'',
                            operator_key = ''must''\<rparr>) vals)"
proof -
  let ?f = "\<lambda>v. \<lparr>field_key = '''',
                  value_key = (case v of Str t \<Rightarrow> Str (t @ '','' @ t)
                               | Tup xs \<Rightarrow> Str (hd xs @ '','' @ hd (tl xs))),
                  type_key = Some ''datetime_range'', operator_key = ''must''\<rparr>"
  have "\<forall>v \<in> set vals. datetime_range_chip v = Inr (?f v)"
  proof
    fix v assume "v \<in> set vals"
    with assms consider t where "v = Str t" | s e where "v = Tup [s, e]" by blast
    then show "datetime_range_chip v = Inr (?f v)"
      by cases (simp_all add: datetime_range_chip_Str datetime_range_chip_pair)
  qed
  then have "datetime_range_loop vals [] = Inr ([] @ map ?f vals)"
    by (rule datetime_range_loop_append)
  then show ?thesis
    by (simp add: get_filter_chips_def)
qed

text \<open>
  C3. For every list of time inputs, each a single timestamp or an explicit pair, the
  builder called with chip type \<^verbatim>\<open>datetime_range\<close> returns one chip per input, each
  with field \<^verbatim>\<open>''\<close>, operator \<^verbatim>\<open>must\<close> and type \<^verbatim>\<open>datetime_range\<close>; a single
  timestamp \<open>t\<close> gives the value \<^verbatim>\<open>t,t\<close> and a pair gives \<^verbatim>\<open>start,end\<close>.
\<close>

theorem datetime_range_chips:
  assumes "\<forall>v \<in> set vals. (\<exists>t. v = Str t) \<or> (\<exists>s e. v = Tup [s, e])"
  shows "\<exists>chips. get_filter_chips vals ''datetime_range'' = Inr chips \<and>
           length chips = length vals \<and>
           (\<forall>i < length vals.
              field_key (chips ! i) = '''' \<and>
              operator_key (chips ! i) = ''must'' \<and>
              type_key (chips ! i) = Some ''datetime_range'' \<and>
              (\<forall>t. vals ! i = Str t \<longrightarrow> value_key (chips ! i) = Str (t @ '','' @ t)) \<and>
              (\<forall>s e. vals ! i = Tup [s, e] \<longrightarrow>
                      value_key (chips ! i) = Str (s @ '','' @ e)))"
  using datetime_range_chips_map [OF assms] by simp

theorem datetime_range_chips_witness:
  "\<exists>chips. get_filter_chips [Str ''2020-01-01T12:00'', Tup [''2020-01-01'', ''2020-02-01'']]
              ''datetime_range'' = Inr chips \<and>
     length chips = 2 \<and>
     value_key (chips ! 0) = Str ''2020-01-01T12:00,2020-01-01T12:00'' \<and>
     value_key (chips ! 1) = Str ''2020-01-01,2020-02-01'' \<and>
     type_key (chips ! 0) = Some ''datetime_range'' \<and>
     type_key (chips ! 1) = Some ''datetime_range''"
proof -
  have h: "\<forall>v \<in> set [Str ''2020-01-01T12:00'', Tup [''2020-01-01'', ''2020-02-01'']].
             (\<exists>t. v = Str t) \<or> (\<exists>s e. v = Tup [s, e])"
    by simp
  from datetime_range_chips [OF h] obtain chips where
    c: "get_filter_chips [Str ''2020-01-01T12:00'', Tup [''2020-01-01'', ''2020-02-01'']]
          ''datetime_range'' = Inr chips"
       "length chips = 2"
    and at: "\<forall>i < 2.
              type_key (chips ! i) = Some ''datetime_range'' \<and>
              (\<forall>t. [Str ''2020-01-01T12:00'', Tup [''2020-01-01'', ''2020-02-01'']] ! i = Str t
                    \<longrightarrow> value_key (chips ! i) = Str (t @ '','' @ t)) \<and>
              (\<forall>s e. [Str ''2020-01-01T12:00'', Tup [''2020-01-01'', ''2020-02-01'']] ! i
                        = Tup [s, e]
                    \<longrightarrow> value_key (chips ! i) = Str (s @ '','' @ e))"
    by auto
  from at have "value_key (chips ! 0) = Str ''2020-01-01T12:00,2020-01-01T12:00''"
    and "type_key (chips ! 0) = Some ''datetime_range''"
    by simp_all
  moreover from at have "value_key (chips ! 1) = Str ''2020-01-01,2020-02-01''"
    and "type_key (chips ! 1) = Some ''datetime_range''"
    by simp_all
  ultimately show ?thesis using c by simp
qed

text \<open>
  C8. For every list of values, the builder called with a chip type other than
  \<^verbatim>\<open>label\<close> and \<^verbatim>\<open>datetime_range\<close> returns the empty list of chips and no error.
\<close>

theorem unknown_chip_type:
  assumes "chip_type \<noteq> ''label''" and "chip_type \<noteq> ''datetime_range''"
  shows "get_filter_chips vals chip_type = Inr []"
  using assms by (simp add: get_filter_chips_def)

theorem unknown_chip_type_witness:
  "get_filter_chips [Str ''star'', Tup [''2020-01-01'']] ''term'' = Inr []"
  by (rule unknown_chip_type) simp_all

subsection \<open>The filter built from the command line\<close>

lemma get_filter_chips_Nil: "get_filter_chips [] chip_type = Inr []"
  by (simp add: get_filter_chips_def)

lemma extend_chips_Inr:
  assumes "get_filter_chips vals chip_type = Inr chips"
  shows "extend_chips vals chip_type qf = Inr (qf\<lparr>chips_key := chips_key qf @ chips\<rparr>)"
proof (cases "vals = []")
  case True
  with assms have "chips = []" by (simp add: get_filter_chips_Nil)
  with True show ?thesis by (simp add: extend_chips_def)
next
  case False
  with assms show ?thesis by (simp add: extend_chips_def)
qed

lemma time_range_chips_map:
  "get_filter_chips (map (\<lambda>(s, e). Tup [s, e]) ranges) ''datetime_range'' =
     Inr (map (\<lambda>(s, e). \<lparr>field_key = '''', value_key = Str (s @ '','' @ e),
                          type_key = Some ''datetime_range'',
                          operator_key = ''must''\<rparr>) ranges)"
proof -
  have "\<forall>v \<in> set (map (\<lambda>(s, e). Tup [s, e]) ranges).
          (\<exists>t. v = Str t) \<or> (\<exists>s e. v = Tup [s, e])"
    by auto
  from datetime_range_chips_map [OF this] show ?thesis
    by (simp add: comp_def case_prod_beta)
qed

lemma time_chips_map:
  "get_filter_chips (map Str ts) ''datetime_range'' =
     Inr (map (\<lambda>t. \<lparr>field_key = '''', value_key = Str (t @ '','' @ t),
                      type_key = Some ''datetime_range'',
                      operator_key = ''must''\<rparr>) ts)"
proof -
  have "\<forall>v \<in> set (map Str ts). (\<exists>t. v = Str t) \<or> (\<exists>s e. v = Tup [s, e])"
    by auto
  from datetime_range_chips_map [OF this] show ?thesis
    by (simp add: comp_def)
qed

lemma apply_filter_flags_Inr:
  assumes "get_filter_chips (map (\<lambda>(s, e). Tup [s, e]) (arg_time_ranges a))
             ''datetime_range'' = Inr r"
    and "get_filter_chips (map Str (arg_times a)) ''datetime_range'' = Inr t"
    and "get_filter_chips (map Str (arg_labels a)) ''label'' = Inr l"
  shows "apply_filter_flags a qf = Inr (qf\<lparr>chips_key := chips_key qf @ r @ t @ l\<rparr>)"
  by (simp add: apply_filter_flags_def extend_chips_Inr [OF assms(1)]
        extend_chips_Inr [OF assms(2)] extend_chips_Inr [OF assms(3)])

lemma searches_search_then_echo:
  "searches (fst (search_then_echo L sk q qf rf fmt h nl)) = [(q, qf, FieldStr rf)]"
  by (simp add: search_then_echo_def search_def split: sum.splits)

lemma searches_describe_query: "searches (describe_query L q qf) = []"
  by (simp add: describe_query_def)

lemma explore_group_adhoc:
  assumes "\<not> truthy (arg_view a)"
    and "apply_filter_flags a (new_query_filter (arg_limit a) (arg_order a)) = Inr qf"
  shows "explore_group L obj a =
           (if arg_describe a then (describe_query L (arg_query a) qf, Inr ())
            else search_then_echo L (obj_sketch obj) (arg_query a) qf (arg_return_fields a)
                   (if truthy (arg_output a) then the (arg_output a)
                    else obj_output_format obj)
                   (arg_header a)
                   ((if truthy (arg_output a) then the (arg_output a)
                     else obj_output_format obj) \<noteq> ''csv''))"
  using assms by (simp add: explore_group_def Let_def)

lemma explore_group_view:
  assumes "truthy (arg_view a)"
    and "get_view (obj_sketch obj) (the (arg_view a)) = Inr v"
  shows "explore_group L obj a =
           (if arg_describe a then
              (GetView (the (arg_view a))
                 # describe_query L (view_query_string v) (view_query_filter v), Inr ())
            else
              (GetView (the (arg_view a))
                 # fst (search_then_echo L (obj_sketch obj) (view_query_string v)
                          (view_query_filter v) (arg_return_fields a)
                          (if truthy (arg_output a) then the (arg_output a)
                           else obj_output_format obj)
                          (arg_header a)
                          ((if truthy (arg_output a) then the (arg_output a)
                            else obj_output_format obj) \<noteq> ''csv'')),
               snd (search_then_echo L (obj_sketch obj) (view_query_string v)
                          (view_query_filter v) (arg_return_fields a)
                          (if truthy (arg_output a) then the (arg_output a)
                           else obj_output_format obj)
                          (arg_header a)
                          ((if truthy (arg_output a) then the (arg_output a)
                            else obj_output_format obj) \<noteq> ''csv''))))"
  using assms by (simp add: explore_group_def Let_def split: prod.splits)

lemma explore_group_view_error:
  assumes "truthy (arg_view a)"
    and "get_view (obj_sketch obj) (the (arg_view a)) = Inl e"
  shows "explore_group L obj a = ([GetView (the (arg_view a))], Inl e)"
  using assms by (simp add: explore_group_def Let_def)

text \<open>
  C9. When no saved view is supplied, the chips of the constructed query filter are the
  chips built from the \<^verbatim>\<open>--time-range\<close> values, then those built from the
  \<^verbatim>\<open>--time\<close> values, then those built from the \<^verbatim>\<open>--label\<close> values, each group in
  the order of the command line; this is the filter that is described or searched with.
\<close>

theorem cli_chips_order:
  assumes "\<not> truthy (arg_view a)"
  shows "\<exists>r t l qf.
           get_filter_chips (map (\<lambda>(s, e). Tup [s, e]) (arg_time_ranges a))
             ''datetime_range'' = Inr r \<and>
           r = map (\<lambda>(s, e). \<lparr>field_key = '''', value_key = Str (s @ '','' @ e),
                               type_key = Some ''datetime_range'',
                               operator_key = ''must''\<rparr>) (arg_time_ranges a) \<and>
           get_filter_chips (map Str (arg_times a)) ''datetime_range'' = Inr t \<and>
           t = map (\<lambda>t. \<lparr>field_key = '''', value_key = Str (t @ '','' @ t),
                           type_key = Some ''datetime_range'',
                           operator_key = ''must''\<rparr>) (arg_times a) \<and>
           get_filter_chips (map Str (arg_labels a)) ''label'' = Inr l \<and>
           l = map (label_chip \<circ> Str) (arg_labels a) \<and>
           apply_filter_flags a (new_query_filter (arg_limit a) (arg_order a)) = Inr qf \<and>
           chips_key qf = r @ t @ l \<and>
           searches (fst (explore_group L obj a)) =
             (if arg_describe a then []
              else [(arg_query a, qf, FieldStr (arg_return_fields a))]) \<and>
           (arg_describe a \<longrightarrow>
              fst (explore_group L obj a) = describe_query L (arg_query a) qf)"
proof -
  let ?r = "map (\<lambda>(s, e). \<lparr>field_key = '''', value_key = Str (s @ '','' @ e),
                            type_key = Some ''datetime_range'',
                            operator_key = ''must''\<rparr>) (arg_time_ranges a)"
  let ?t = "map (\<lambda>t. \<lparr>field_key = '''', value_key = Str (t @ '','' @ t),
                        type_key = Some ''datetime_range'',
                        operator_key = ''must''\<rparr>) (arg_times a)"
  let ?l = "map (label_chip \<circ> Str) (arg_labels a)"
  let ?q0 = "new_query_filter (arg_limit a) (arg_order a)"
  let ?qf = "?q0\<lparr>chips_key := chips_key ?q0 @ ?r @ ?t @ ?l\<rparr>"
  have r: "get_filter_chips (map (\<lambda>(s, e). Tup [s, e]) (arg_time_ranges a))
             ''datetime_range'' = Inr ?r"
    by (rule time_range_chips_map)
  have t: "get_filter_chips (map Str (arg_times a)) ''datetime_range'' = Inr ?t"
    by (rule time_chips_map)
  have l: "get_filter_chips (map Str (arg_labels a)) ''label'' = Inr ?l"
    by (rule label_chips_map)
  have qf: "apply_filter_flags a ?q0 = Inr ?qf"
    by (rule apply_filter_flags_Inr [OF r t l])
  have chips: "chips_key ?qf = ?r @ ?t @ ?l"
    by (simp add: new_query_filter_def)
  have run: "searches (fst (explore_group L obj a)) =
               (if arg_describe a then []
                else [(arg_query a, ?qf, FieldStr (arg_return_fields a))])"
    by (simp add: explore_group_adhoc [OF assms qf] searches_search_then_echo
          searches_describe_query)
  have descr: "arg_describe a \<longrightarrow>
                 fst (explore_group L obj a) = describe_query L (arg_query a) ?qf"
    by (simp add: explore_group_adhoc [OF assms qf])
  from r t l qf chips run descr show ?thesis by blast
qed

theorem cli_chips_order_witness:
  "searches (fst (explore_group example_libs example_obj
      (default_args\<lparr>arg_times := [''2020-03-01T12:00''],
                     arg_time_ranges := [(''2020-01-01'', ''2020-02-01'')],
                     arg_labels := [''star'', ''seen'']\<rparr>))) =
     [(''*'',
       \<lparr>from_key = 0, terminate_after_key = 40, size_key = 40, indices_key = [''_all''],
        order_key = ''asc'',
        chips_key =
          [\<lparr>field_key = '''', value_key = Str ''2020-01-01,2020-02-01'',
            type_key = Some ''datetime_range'', operator_key = ''must''\<rparr>,
           \<lparr>field_key = '''', value_key = Str ''2020-03-01T12:00,2020-03-01T12:00'',
            type_key = Some ''datetime_range'', operator_key = ''must''\<rparr>,
           \<lparr>field_key = '''', value_key = Str ''__ts_star'',
            type_key = Some ''label'', operator_key = ''must''\<rparr>,
           \<lparr>field_key = '''', value_key = Str ''seen'',
            type_key = Some ''label'', operator_key = ''must''\<rparr>]\<rparr>,
       FieldStr '''')]"
proof -
  let ?a = "default_args\<lparr>arg_times := [''2020-03-01T12:00''],
                          arg_time_ranges := [(''2020-01-01'', ''2020-02-01'')],
                          arg_labels := [''star'', ''seen'']\<rparr>"
  have h: "\<not> truthy (arg_view ?a)"
    by (simp add: default_args_def)
  from cli_chips_order [OF h, of example_libs example_obj] obtain qf where
    qf: "apply_filter_flags ?a (new_query_filter (arg_limit ?a) (arg_order ?a)) = Inr qf"
    and run: "searches (fst (explore_group example_libs example_obj ?a)) =
                (if arg_describe ?a then []
                 else [(arg_query ?a, qf, FieldStr (arg_return_fields ?a))])"
    by blast
  from qf have "qf =
       \<lparr>from_key = 0, terminate_after_key = 40, size_key = 40, indices_key = [''_all''],
        order_key = ''asc'',
        chips_key =
          [\<lparr>field_key = '''', value_key = Str ''2020-01-01,2020-02-01'',
            type_key = Some ''datetime_range'', operator_key = ''must''\<rparr>,
           \<lparr>field_key = '''', value_key = Str ''2020-03-01T12:00,2020-03-01T12:00'',
            type_key = Some ''datetime_range'', operator_key = ''must''\<rparr>,
           \<lparr>field_key = '''', value_key = Str ''__ts_star'',
            type_key = Some ''label'', operator_key = ''must''\<rparr>,
           \<lparr>field_key = '''', value_key = Str ''seen'',
            type_key = Some ''label'', operator_key = ''must''\<rparr>]\<rparr>"
    by (simp add: default_args_def apply_filter_flags_def extend_chips_def
          get_filter_chips_def datetime_range_chip_def tuple_get_def label_chip_def
          create_empty_chip_def new_query_filter_def)
  with run show ?thesis
    by (simp add: default_args_def)
qed

text \<open>
  C7. When no saved view is supplied, the query filter of the invocation has
  \<^verbatim>\<open>from\<close> 0, \<^verbatim>\<open>terminate_after\<close> and \<^verbatim>\<open>size\<close> equal to \<^verbatim>\<open>--limit\<close> (default 40),
  \<^verbatim>\<open>indices\<close> equal to \<^verbatim>\<open>['_all']\<close> and \<^verbatim>\<open>order\<close> equal to \<^verbatim>\<open>--order\<close> (default
  \<^verbatim>\<open>asc\<close>); its chips are empty before the filter flags are applied, and the flags
  change nothing but the chips of the filter that is described or searched with.
\<close>

theorem fresh_query_filter:
  assumes "\<not> truthy (arg_view a)"
  shows "new_query_filter (arg_limit a) (arg_order a) =
           \<lparr>from_key = 0, terminate_after_key = arg_limit a, size_key = arg_limit a,
            indices_key = [''_all''], order_key = arg_order a, chips_key = []\<rparr> \<and>
         arg_limit default_args = 40 \<and> arg_order default_args = ''asc'' \<and>
         (\<exists>chips.
            apply_filter_flags a (new_query_filter (arg_limit a) (arg_order a)) =
              Inr \<lparr>from_key = 0, terminate_after_key = arg_limit a, size_key = arg_limit a,
                   indices_key = [''_all''], order_key = arg_order a, chips_key = chips\<rparr> \<and>
            searches (fst (explore_group L obj a)) =
              (if arg_describe a then []
               else [(arg_query a,
                      \<lparr>from_key = 0, terminate_after_key = arg_limit a,
                       size_key = arg_limit a, indices_key = [''_all''],
                       order_key = arg_order a, chips_key = chips\<rparr>,
                      FieldStr (arg_return_fields a))]) \<and>
            (arg_describe a \<longrightarrow>
               fst (explore_group L obj a) =
                 describe_query L (arg_query a)
                   \<lparr>from_key = 0, terminate_after_key = arg_limit a,
                    size_key = arg_limit a, indices_key = [''_all''],
                    order_key = arg_order a, chips_key = chips\<rparr>) \<and>
            (arg_time_ranges a = [] \<and> arg_times a = [] \<and> arg_labels a = [] \<longrightarrow>
               chips = []))"
proof -
  let ?q0 = "new_query_filter (arg_limit a) (arg_order a)"
  obtain r t l where
    r: "get_filter_chips (map (\<lambda>(s, e). Tup [s, e]) (arg_time_ranges a))
          ''datetime_range'' = Inr r"
    and t: "get_filter_chips (map Str (arg_times a)) ''datetime_range'' = Inr t"
    and l: "get_filter_chips (map Str (arg_labels a)) ''label'' = Inr l"
    using time_range_chips_map time_chips_map label_chips_map by blast
  let ?F = "\<lambda>chips. \<lparr>from_key = 0, terminate_after_key = arg_limit a,
                       size_key = arg_limit a, indices_key = [''_all''],
                       order_key = arg_order a, chips_key = chips\<rparr>"
  have q0: "?q0 = ?F []"
    by (simp add: new_query_filter_def)
  have qf: "apply_filter_flags a ?q0 = Inr (?F (r @ t @ l))"
    by (simp add: apply_filter_flags_Inr [OF r t l] new_query_filter_def)
  have run: "searches (fst (explore_group L obj a)) =
               (if arg_describe a then []
                else [(arg_query a, ?F (r @ t @ l), FieldStr (arg_return_fields a))])"
    by (simp add: explore_group_adhoc [OF assms qf] searches_search_then_echo
          searches_describe_query)
  have descr: "arg_describe a \<longrightarrow>
                 fst (explore_group L obj a) =
                   describe_query L (arg_query a) (?F (r @ t @ l))"
    by (simp add: explore_group_adhoc [OF assms qf])
  have none: "arg_time_ranges a = [] \<and> arg_times a = [] \<and> arg_labels a = [] \<longrightarrow>
                r @ t @ l = []"
    using r t l by (auto simp: get_filter_chips_Nil)
  have defaults: "arg_limit default_args = 40 \<and> arg_order default_args = ''asc''"
    by (simp add: default_args_def)
  from q0 qf run descr none defaults show ?thesis by blast
qed

theorem fresh_query_filter_witness:
  "searches (fst (explore_group example_libs example_obj default_args)) =
     [(''*'',
       \<lparr>from_key = 0, terminate_after_key = 40, size_key = 40, indices_key = [''_all''],
        order_key = ''asc'', chips_key = []\<rparr>,
       FieldStr '''')]"
proof -
  have h: "\<not> truthy (arg_view default_args)"
    by (simp add: default_args_def)
  from fresh_query_filter [OF h, of example_libs example_obj] obtain chips where
    run: "searches (fst (explore_group example_libs example_obj default_args)) =
            (if arg_describe default_args then []
             else [(arg_query default_args,
                    \<lparr>from_key = 0, terminate_after_key = arg_limit default_args,
                     size_key = arg_limit default_args, indices_key = [''_all''],
                     order_key = arg_order default_args, chips_key = chips\<rparr>,
                    FieldStr (arg_return_fields default_args))])"
    and none: "arg_time_ranges default_args = [] \<and> arg_times default_args = [] \<and>
               arg_labels default_args = [] \<longrightarrow> chips = []"
    by blast
  from none have "chips = []"
    by (simp add: default_args_def)
  with run show ?thesis
    by (simp add: default_args_def)
qed

subsection \<open>Describe and saved views\<close>

text \<open>
  C4. Whenever the describe flag is set, the command makes no call to
  \<^verbatim>\<open>sketch.explore\<close>. On the saved-view path (when the view is fetched) and on the
  ad-hoc path alike it echoes the resolved query string and the filter serialised by
  \<^verbatim>\<open>json.dumps\<close> with \<^verbatim>\<open>indent=2\<close>, and returns.
\<close>

theorem describe_never_searches:
  assumes "arg_describe a"
  shows "searches (fst (explore_group L obj a)) = [] \<and>
         (\<forall>v. truthy (arg_view a) \<and>
               get_view (obj_sketch obj) (the (arg_view a)) = Inr v \<longrightarrow>
               explore_group L obj a =
                 ([GetView (the (arg_view a)),
                   Echo (Some (''Query string: '' @ view_query_string v)) True,
                   Echo (Some (''Filter: '' @ json_dumps L (view_query_filter v) 2)) True],
                  Inr ())) \<and>
         (\<not> truthy (arg_view a) \<longrightarrow>
            (\<exists>qf. apply_filter_flags a (new_query_filter (arg_limit a) (arg_order a)) =
                    Inr qf \<and>
                  explore_group L obj a =
                    ([Echo (Some (''Query string: '' @ arg_query a)) True,
                      Echo (Some (''Filter: '' @ json_dumps L qf 2)) True],
                     Inr ())))"
proof -
  obtain r t l where
    r: "get_filter_chips (map (\<lambda>(s, e). Tup [s, e]) (arg_time_ranges a))
          ''datetime_range'' = Inr r"
    and t: "get_filter_chips (map Str (arg_times a)) ''datetime_range'' = Inr t"
    and l: "get_filter_chips (map Str (arg_labels a)) ''label'' = Inr l"
    using time_range_chips_map time_chips_map label_chips_map by blast
  let ?q0 = "new_query_filter (arg_limit a) (arg_order a)"
  let ?qf = "?q0\<lparr>chips_key := chips_key ?q0 @ r @ t @ l\<rparr>"
  have qf: "apply_filter_flags a ?q0 = Inr ?qf"
    by (rule apply_filter_flags_Inr [OF r t l])
  have adhoc: "\<not> truthy (arg_view a) \<longrightarrow>
                 explore_group L obj a =
                   ([Echo (Some (''Query string: '' @ arg_query a)) True,
                     Echo (Some (''Filter: '' @ json_dumps L ?qf 2)) True],
                    Inr ())"
    using assms by (simp add: explore_group_adhoc [OF _ qf] describe_query_def)
  have saved: "\<forall>v. truthy (arg_view a) \<and>
                 get_view (obj_sketch obj) (the (arg_view a)) = Inr v \<longrightarrow>
                 explore_group L obj a =
                   ([GetView (the (arg_view a)),
                     Echo (Some (''Query string: '' @ view_query_string v)) True,
                     Echo (Some (''Filter: '' @ json_dumps L (view_query_filter v) 2)) True],
                    Inr ())"
    using assms by (simp add: explore_group_view describe_query_def)
  have none: "searches (fst (explore_group L obj a)) = []"
  proof (cases "truthy (arg_view a)")
    case False
    with adhoc show ?thesis by simp
  next
    case True
    show ?thesis
    proof (cases "get_view (obj_sketch obj) (the (arg_view a))")
      case (Inl e)
      with True show ?thesis by (simp add: explore_group_view_error)
    next
      case (Inr v)
      with True saved show ?thesis by simp
    qed
  qed
  from none saved adhoc qf show ?thesis by blast
qed

theorem describe_never_searches_witness:
  "explore_group example_libs example_obj
     (default_args\<lparr>arg_labels := [''star''], arg_describe := True\<rparr>) =
     ([Echo (Some ''Query string: *'') True, Echo (Some ''Filter: json'') True], Inr ()) \<and>
   apply_filter_flags (default_args\<lparr>arg_labels := [''star''], arg_describe := True\<rparr>)
     (new_query_filter 40 ''asc'') =
     Inr \<lparr>from_key = 0, terminate_after_key = 40, size_key = 40, indices_key = [''_all''],
          order_key = ''asc'',
          chips_key = [\<lparr>field_key = '''', value_key = Str ''__ts_star'',
                        type_key = Some ''label'', operator_key = ''must''\<rparr>]\<rparr> \<and>
   explore_group example_libs example_obj
     (default_args\<lparr>arg_view := Some ''my_view'', arg_describe := True\<rparr>) =
     ([GetView ''my_view'', Echo (Some ''Query string: tag:login'') True,
       Echo (Some ''Filter: json'') True], Inr ())"
proof -
  let ?a = "default_args\<lparr>arg_labels := [''star''], arg_describe := True\<rparr>"
  let ?b = "default_args\<lparr>arg_view := Some ''my_view'', arg_describe := True\<rparr>"
  have ha: "arg_describe ?a" and hb: "arg_describe ?b"
    by simp_all
  have na: "\<not> truthy (arg_view ?a)"
    by (simp add: default_args_def)
  have vb: "truthy (arg_view ?b) \<and>
            get_view (obj_sketch example_obj) (the (arg_view ?b)) = Inr example_view"
    by (simp add: example_obj_def example_sketch_def)
  from describe_never_searches [OF ha, of example_libs example_obj] na
  have "\<exists>qf. apply_filter_flags ?a (new_query_filter (arg_limit ?a) (arg_order ?a)) = Inr qf \<and>
          explore_group example_libs example_obj ?a =
            ([Echo (Some (''Query string: '' @ arg_query ?a)) True,
              Echo (Some (''Filter: '' @ json_dumps example_libs qf 2)) True], Inr ())"
    by blast
  then have first: "explore_group example_libs example_obj ?a =
      ([Echo (Some ''Query string: *'') True, Echo (Some ''Filter: json'') True], Inr ())"
    by (auto simp: default_args_def example_libs_def)
  have second: "apply_filter_flags ?a (new_query_filter 40 ''asc'') =
     Inr \<lparr>from_key = 0, terminate_after_key = 40, size_key = 40, indices_key = [''_all''],
          order_key = ''asc'',
          chips_key = [\<lparr>field_key = '''', value_key = Str ''__ts_star'',
                        type_key = Some ''label'', operator_key = ''must''\<rparr>]\<rparr>"
    by (simp add: default_args_def apply_filter_flags_def extend_chips_def
          get_filter_chips_def label_chip_def create_empty_chip_def new_query_filter_def)
  from describe_never_searches [OF hb, of example_libs example_obj] vb
  have "explore_group example_libs example_obj ?b =
          ([GetView (the (arg_view ?b)),
            Echo (Some (''Query string: '' @ view_query_string example_view)) True,
            Echo (Some (''Filter: '' @
                    json_dumps example_libs (view_query_filter example_view) 2)) True],
           Inr ())"
    by blast
  then have third: "explore_group example_libs example_obj ?b =
     ([GetView ''my_view'', Echo (Some ''Query string: tag:login'') True,
       Echo (Some ''Filter: json'') True], Inr ())"
    by (simp add: example_view_def example_libs_def)
  from first second third show ?thesis by blast
qed

lemma explore_group_ignores_flags:
  assumes "truthy (arg_view a)"
  shows "explore_group L obj (a\<lparr>arg_labels := ls, arg_times := ts, arg_time_ranges := rs\<rparr>) =
           explore_group L obj a"
proof -
  let ?a' = "a\<lparr>arg_labels := ls, arg_times := ts, arg_time_ranges := rs\<rparr>"
  from assms have tr: "truthy (arg_view ?a')" by simp
  show ?thesis
  proof (cases "get_view (obj_sketch obj) (the (arg_view a))")
    case (Inl e)
    then have "get_view (obj_sketch obj) (the (arg_view ?a')) = Inl e" by simp
    from explore_group_view_error [OF tr this] explore_group_view_error [OF assms Inl]
    show ?thesis by simp
  next
    case (Inr v)
    then have "get_view (obj_sketch obj) (the (arg_view ?a')) = Inr v" by simp
    from explore_group_view [OF tr this] explore_group_view [OF assms Inr]
    show ?thesis by simp
  qed
qed

text \<open>
  C5. If a saved view name is supplied (and the view is fetched), the query string and
  the query filter of the search are the ones stored in the view, and the values of
  \<^verbatim>\<open>--label\<close>, \<^verbatim>\<open>--time\<close> and \<^verbatim>\<open>--time-range\<close> change nothing in the run.
\<close>

theorem view_replaces_cli_filter:
  assumes "arg_view a = Some view_name" and "view_name \<noteq> ''''"
    and "get_view (obj_sketch obj) view_name = Inr v"
  shows "searches (fst (explore_group L obj a)) =
           (if arg_describe a then []
            else [(view_query_string v, view_query_filter v,
                   FieldStr (arg_return_fields a))]) \<and>
         explore_group L obj
           (a\<lparr>arg_labels := ls, arg_times := ts, arg_time_ranges := rs\<rparr>) =
           explore_group L obj a"
proof -
  from assms(1,2) have tr: "truthy (arg_view a)" by simp
  from assms(1,3) have gv: "get_view (obj_sketch obj) (the (arg_view a)) = Inr v" by simp
  have "searches (fst (explore_group L obj a)) =
          (if arg_describe a then []
           else [(view_query_string v, view_query_filter v,
                  FieldStr (arg_return_fields a))])"
    by (simp add: explore_group_view [OF tr gv] searches_search_then_echo
          searches_describe_query)
  with explore_group_ignores_flags [OF tr] show ?thesis by simp
qed

theorem view_replaces_cli_filter_witness:
  "searches (fst (explore_group example_libs example_obj
      (default_args\<lparr>arg_view := Some ''my_view''\<rparr>))) =
     [(''tag:login'',
       \<lparr>from_key = 0, terminate_after_key = 10, size_key = 10, indices_key = [''_all''],
        order_key = ''desc'', chips_key = []\<rparr>,
       FieldStr '''')] \<and>
   explore_group example_libs example_obj
     (default_args\<lparr>arg_view := Some ''my_view'', arg_labels := [''star''],
                    arg_times := [''2020-03-01T12:00''],
                    arg_time_ranges := [(''2020-01-01'', ''2020-02-01'')]\<rparr>) =
     explore_group example_libs example_obj (default_args\<lparr>arg_view := Some ''my_view''\<rparr>)"
proof -
  let ?a = "default_args\<lparr>arg_view := Some ''my_view''\<rparr>"
  have h1: "arg_view ?a = Some ''my_view''" and h2: "''my_view'' \<noteq> ''''"
    and h3: "get_view (obj_sketch example_obj) ''my_view'' = Inr example_view"
    by (simp_all add: example_obj_def example_sketch_def)
  from view_replaces_cli_filter [OF h1 h2 h3, where L = example_libs
      and ls = "[''star'']" and ts = "[''2020-03-01T12:00'']"
      and rs = "[(''2020-01-01'', ''2020-02-01'')]"]
  show ?thesis
    by (simp add: default_args_def example_view_def)
qed

text \<open>
  C10. When a saved view name and the describe flag are both supplied, the call to
  \<^verbatim>\<open>get_view\<close> is still made, first; if it answers, the query and filter of the view
  are echoed after it, and if it raises, the exception leaves the command. No search
  is made either way.
\<close>

theorem describe_fetches_view:
  assumes "arg_view a = Some view_name" and "view_name \<noteq> ''''" and "arg_describe a"
  shows "explore_group L obj a =
           (case get_view (obj_sketch obj) view_name of
              Inl e \<Rightarrow> ([GetView view_name], Inl e)
            | Inr v \<Rightarrow>
                ([GetView view_name,
                  Echo (Some (''Query string: '' @ view_query_string v)) True,
                  Echo (Some (''Filter: '' @ json_dumps L (view_query_filter v) 2)) True],
                 Inr ()))"
  using assms by (simp add: explore_group_def Let_def describe_query_def split: sum.splits)

theorem describe_fetches_view_witness:
  "explore_group example_libs example_obj
     (default_args\<lparr>arg_view := Some ''my_view'', arg_describe := True\<rparr>) =
     ([GetView ''my_view'', Echo (Some ''Query string: tag:login'') True,
       Echo (Some ''Filter: json'') True], Inr ()) \<and>
   explore_group example_libs example_obj
     (default_args\<lparr>arg_view := Some ''gone'', arg_describe := True\<rparr>) =
     ([GetView ''gone''], Inl (ServiceError ''no such view''))"
proof -
  let ?a = "default_args\<lparr>arg_view := Some ''my_view'', arg_describe := True\<rparr>"
  let ?b = "default_args\<lparr>arg_view := Some ''gone'', arg_describe := True\<rparr>"
  have a: "arg_view ?a = Some ''my_view''" "''my_view'' \<noteq> ''''" "arg_describe ?a"
    by simp_all
  have b: "arg_view ?b = Some ''gone''" "''gone'' \<noteq> ''''" "arg_describe ?b"
    by simp_all
  from describe_fetches_view [OF a, where L = example_libs and obj = example_obj]
    describe_fetches_view [OF b, where L = example_libs and obj = example_obj]
  show ?thesis
    by (simp add: example_obj_def example_sketch_def example_view_def example_libs_def)
qed

subsection \<open>The output formatter\<close>

text \<open>
  C6. For every table and every header setting, the formatter returns the rendering of
  that table with that header setting: \<^verbatim>\<open>to_string\<close> for the tag \<^verbatim>\<open>text\<close>,
  \<^verbatim>\<open>to_csv\<close> for \<^verbatim>\<open>csv\<close>, and \<^verbatim>\<open>tabulate\<close> for \<^verbatim>\<open>tabular\<close>, with
  \<^verbatim>\<open>headers='keys'\<close> when headers are shown and without headers otherwise. For
  every other tag it returns \<^verbatim>\<open>None\<close>, and a string is returned for exactly the three
  tags; it has no raise of its own.
\<close>

theorem format_output_formats:
  "format_output L dataframe ''text'' show_headers =
     Some (to_string L dataframe show_headers) \<and>
   format_output L dataframe ''csv'' show_headers =
     Some (to_csv L dataframe show_headers) \<and>
   format_output L dataframe ''tabular'' show_headers =
     Some (tabulate L dataframe (if show_headers then Some ''keys'' else None)) \<and>
   ((\<exists>s. format_output L dataframe output_format show_headers = Some s) =
      (output_format \<in> {''text'', ''csv'', ''tabular''})) \<and>
   ((format_output L dataframe output_format show_headers = None) =
      (output_format \<notin> {''text'', ''csv'', ''tabular''}))"
  by (simp add: format_output_def)

subsection \<open>The label column of the search result\<close>

lemma startswith_iff: "startswith s p \<longleftrightarrow> (\<exists>q. s = p @ q)"
  by (induction s p rule: startswith.induct) auto

lemma str_contains_iff: "str_contains s sub \<longleftrightarrow> (\<exists>p q. s = p @ sub @ q)"
proof (induction s)
  case Nil
  then show ?case by simp
next
  case (Cons c cs)
  show ?case
  proof
    assume "str_contains (c # cs) sub"
    then consider "startswith (c # cs) sub" | "str_contains cs sub" by auto
    then show "\<exists>p q. c # cs = p @ sub @ q"
    proof cases
      case 1
      then obtain q where "c # cs = sub @ q" by (auto simp: startswith_iff)
      then have "c # cs = [] @ sub @ q" by simp
      then show ?thesis by blast
    next
      case 2
      with Cons obtain p q where "cs = p @ sub @ q" by blast
      then have "c # cs = (c # p) @ sub @ q" by simp
      then show ?thesis by blast
    qed
  next
    assume "\<exists>p q. c # cs = p @ sub @ q"
    then obtain p q where pq: "c # cs = p @ sub @ q" by blast
    show "str_contains (c # cs) sub"
    proof (cases p)
      case Nil
      with pq have "startswith (c # cs) sub" by (auto simp: startswith_iff)
      then show ?thesis by simp
    next
      case (Cons x xs)
      with pq have "cs = xs @ sub @ q" by simp
      with Cons.IH have "str_contains cs sub" by blast
      then show ?thesis by simp
    qed
  qed
qed

lemma split_on_not_Nil: "split_on sep s \<noteq> []"
  by (induction s) (auto split: list.splits)

lemma split_on_hd_prefix: "split_on sep s = w # ws \<Longrightarrow> startswith s w"
proof (induction s arbitrary: w ws)
  case Nil
  then show ?case by simp
next
  case (Cons c cs)
  then show ?case
    by (cases "split_on sep cs") (auto split: if_splits)
qed

lemma split_on_contains: "x \<in> set (split_on sep s) \<Longrightarrow> str_contains s x"
proof (induction s arbitrary: x)
  case Nil
  then show ?case by simp
next
  case (Cons c cs)
  obtain w ws where w: "split_on sep cs = w # ws"
    using split_on_not_Nil [of sep cs] by (cases "split_on sep cs") auto
  show ?case
  proof (cases "c = sep")
    case True
    with Cons.prems have "x = [] \<or> x \<in> set (split_on sep cs)" by simp
    then show ?thesis
    proof
      assume "x = []"
      then show ?thesis by simp
    next
      assume "x \<in> set (split_on sep cs)"
      then have "str_contains cs x" by (rule Cons.IH)
      then show ?thesis by simp
    qed
  next
    case False
    with w Cons.prems have "x = c # w \<or> x \<in> set ws" by simp
    then show ?thesis
    proof
      assume x: "x = c # w"
      from w have "startswith cs w" by (rule split_on_hd_prefix)
      with x show ?thesis by simp
    next
      assume "x \<in> set ws"
      with w have "x \<in> set (split_on sep cs)" by simp
      then have "str_contains cs x" by (rule Cons.IH)
      then show ?thesis by simp
    qed
  qed
qed

lemma requested_py_in: "x \<in> set (requested_fields rf) \<Longrightarrow> py_in x rf"
  by (cases rf) (simp_all add: split_on_contains)

text \<open>
  What \<^verbatim>\<open>search\<close> returns when the service answers with a table that has a
  \<^verbatim>\<open>label\<close> column: the table itself when \<^verbatim>\<open>'label' in return_fields\<close>, and the
  table without its \<^verbatim>\<open>label\<close> columns otherwise.
\<close>

lemma search_result:
  assumes "explore sk q f rf = Inr dataframe" and "''label'' \<in> set (columns dataframe)"
  shows "search sk q f rf =
           ([Explore q f rf],
            Inr (if py_in ''label'' rf then dataframe
                 else filter (\<lambda>col. fst col \<noteq> ''label'') dataframe))"
  using assms by (simp add: search_def drop_columns_def)

lemma columns_filter_label:
  "''label'' \<notin> set (columns (filter (\<lambda>col. fst col \<noteq> ''label'') dataframe))"
  by (auto simp: columns_def)

text \<open>
  With a list of field names, as the docstring of \<^verbatim>\<open>search\<close> has it, the result has
  a \<^verbatim>\<open>label\<close> column exactly when \<^verbatim>\<open>label\<close> is one of the fields.
\<close>

lemma search_label_column_list:
  assumes "explore sk q f (FieldList l) = Inr dataframe"
    and "''label'' \<in> set (columns dataframe)"
  shows "\<exists>out. snd (search sk q f (FieldList l)) = Inr out \<and>
           (''label'' \<in> set (columns out)) = (''label'' \<in> set l)"
  using assms by (simp add: search_result columns_filter_label)

text \<open>
  With any \<^verbatim>\<open>return_fields\<close>, a requested \<^verbatim>\<open>label\<close> keeps the column, and the column
  is dropped exactly when \<^verbatim>\<open>'label' in return_fields\<close> is false; on a string that is
  the substring test.
\<close>

lemma search_keeps_requested_label:
  assumes "explore sk q f rf = Inr dataframe"
    and "''label'' \<in> set (columns dataframe)"
    and "''label'' \<in> set (requested_fields rf)"
  shows "snd (search sk q f rf) = Inr dataframe"
  using assms by (simp add: search_result requested_py_in)

lemma search_label_column_str:
  assumes "explore sk q f (FieldStr s) = Inr dataframe"
    and "''label'' \<in> set (columns dataframe)"
  shows "\<exists>out. snd (search sk q f (FieldStr s)) = Inr out \<and>
           (''label'' \<in> set (columns out)) = (\<exists>p q. s = p @ ''label'' @ q)"
  using assms by (simp add: search_result columns_filter_label str_contains_iff)

text \<open>
  C1. The claim: when the requested fields do not include \<^verbatim>\<open>label\<close>, the table that
  \<^verbatim>\<open>search\<close> returns has no \<^verbatim>\<open>label\<close> column. The command passes the string of
  \<^verbatim>\<open>--return-fields\<close>, and with \<^verbatim>\<open>--return-fields labels\<close> the only requested field
  is \<^verbatim>\<open>labels\<close>, yet \<^verbatim>\<open>'label' in 'labels'\<close> holds and the column of the raw table
  is returned: the comment of lines 81 and 82 and the docstring speak of the list of
  requested fields, the test is on the string.
\<close>

theorem search_keeps_label_for_labels_field:
  "''label'' \<notin> set (requested_fields (FieldStr ''labels'')) \<and>
   explore example_sketch ''*'' (new_query_filter 40 ''asc'') (FieldStr ''labels'') =
     Inr example_table \<and>
   ''label'' \<in> set (columns example_table) \<and>
   search example_sketch ''*'' (new_query_filter 40 ''asc'') (FieldStr ''labels'') =
     ([Explore ''*'' (new_query_filter 40 ''asc'') (FieldStr ''labels'')],
      Inr example_table) \<and>
   searches (fst (explore_group example_libs example_obj
                    (default_args\<lparr>arg_return_fields := ''labels''\<rparr>))) =
     [(''*'', new_query_filter 40 ''asc'', FieldStr ''labels'')]"
  by (simp add: search_def example_sketch_def example_table_def columns_def
        explore_group_def Let_def default_args_def apply_filter_flags_def extend_chips_def
        search_then_echo_def example_obj_def new_query_filter_def)

end
